theory Spec2Isabelle
  imports Main "HOL-Library.Word"
begin

section \<open>The time helpers of bpf/lib/time.h\<close>

text \<open>
  The header defines one constant and two statement-expression macros:
  \<^verbatim>\<open>
  #define NSEC_PER_SEC        (1000ULL * 1000ULL * 1000UL)
  #define bpf_ktime_get_sec() ({ __u64 __x = ktime_get_ns() / NSEC_PER_SEC; __x; })
  #define bpf_sec_to_jiffies(s) ({ __u64 __x = (s) * KERNEL_HZ; __x; })
  \<close>
  All arithmetic is on \<open>__u64\<close>, modelled as \<open>64 word\<close>: multiplication wraps
  modulo \<open>2 ^ 64\<close>, division and the order are the unsigned ones.
\<close>

type_synonym u64 = "64 word"

text \<open>
  C's \<open>/\<close> is undefined for a zero divisor. The model makes that case a value, so
  that "cannot divide by zero" is a statement about the result.
\<close>

datatype fault = DivideByZero

definition u64_div :: "u64 \<Rightarrow> u64 \<Rightarrow> fault + u64" where
  "u64_div a b = (if b = 0 then Inl DivideByZero else Inr (a div b))"

text \<open>
  \<open>1000ULL * 1000ULL * 1000UL\<close>: the product of three unsigned constants, taken in
  \<open>unsigned long long\<close> (the \<open>UL\<close> operand is converted to it).
\<close>

definition NSEC_PER_SEC :: u64 where
  "NSEC_PER_SEC = 1000 * 1000 * 1000"

text \<open>
  \<open>ktime_get_ns()\<close> is declared in bpf/api.h, outside this header. The value
  that the call returns is the parameter \<open>ktime_get_ns\<close> of the model.
\<close>

definition bpf_ktime_get_sec :: "u64 \<Rightarrow> fault + u64" where
  "bpf_ktime_get_sec ktime_get_ns = u64_div ktime_get_ns NSEC_PER_SEC"

text \<open>
  \<open>KERNEL_HZ\<close> comes from the node configuration, outside this header, and is the
  first parameter of the model. The macro is modelled at an argument \<open>s\<close> of type
  \<open>__u64\<close>; the usual arithmetic conversions then take \<open>KERNEL_HZ\<close> to
  \<open>__u64\<close> as well, and the parameter is that converted value.
\<close>

definition bpf_sec_to_jiffies :: "u64 \<Rightarrow> u64 \<Rightarrow> u64" where
  "bpf_sec_to_jiffies KERNEL_HZ s = s * KERNEL_HZ"

subsection \<open>The macros as statement expressions on a machine state\<close>

text \<open>
  Both macros have the form \<^verbatim>\<open>({ __u64 __x = E; __x; })\<close>: a block that declares
  the local \<open>__x\<close>, initialises it with the value of \<open>E\<close>, and has the value of \<open>__x\<close>
  as its own. The definitions above give that value. To say what a macro reads and
  what it leaves behind, the block is also run on the state that an expansion can
  see: the monotonic clock that \<open>ktime_get_ns()\<close> reads, and the variables in scope,
  by name.
\<close>

record machine =
  mono_clock :: u64
  vars :: "string \<Rightarrow> u64"

text \<open>\<^verbatim>\<open>__u64 __x = v;\<close> binds the local, shadowing an outer \<open>__x\<close>.\<close>

definition enter_block :: "u64 \<Rightarrow> machine \<Rightarrow> machine" where
  "enter_block v m = m\<lparr>vars := (vars m)(''__x'' := v)\<rparr>"

text \<open>
  At the closing brace the local goes out of scope, and \<open>__x\<close> is again what it was
  in the state \<open>outer\<close> in which the block was entered.
\<close>

definition leave_block :: "machine \<Rightarrow> machine \<Rightarrow> machine" where
  "leave_block outer m = m\<lparr>vars := (vars m)(''__x'' := vars outer ''__x'')\<rparr>"

text \<open>The block, given the value \<open>v\<close> of its initialiser: its value and the state after it.\<close>

definition stmt_expr :: "u64 \<Rightarrow> machine \<Rightarrow> u64 \<times> machine" where
  "stmt_expr v m =
     (let inner = enter_block v m
      in (vars inner ''__x'', leave_block m inner))"

text \<open>
  \<open>bpf_sec_to_jiffies(s)\<close>: the initialiser \<open>(s) * KERNEL_HZ\<close> mentions the argument
  and the constant only.
\<close>

definition bpf_sec_to_jiffies_stmt :: "u64 \<Rightarrow> u64 \<Rightarrow> machine \<Rightarrow> u64 \<times> machine" where
  "bpf_sec_to_jiffies_stmt KERNEL_HZ s m = stmt_expr (s * KERNEL_HZ) m"

text \<open>
  \<open>bpf_ktime_get_sec()\<close>: the initialiser \<open>ktime_get_ns() / NSEC_PER_SEC\<close> reads the
  clock of the machine.
\<close>

definition bpf_ktime_get_sec_stmt :: "machine \<Rightarrow> (fault + u64) \<times> machine" where
  "bpf_ktime_get_sec_stmt m =
     (case u64_div (mono_clock m) NSEC_PER_SEC of
        Inl e \<Rightarrow> (Inl e, m)
      | Inr v \<Rightarrow> (case stmt_expr v m of (r, m') \<Rightarrow> (Inr r, m')))"

section \<open>Auxiliary facts\<close>

lemma NSEC_PER_SEC_numeral: "NSEC_PER_SEC = 1000000000"
  by (simp add: NSEC_PER_SEC_def)

lemma unat_NSEC_PER_SEC: "unat NSEC_PER_SEC = 1000000000"
  by (simp add: NSEC_PER_SEC_numeral)

lemma NSEC_PER_SEC_nonzero: "NSEC_PER_SEC \<noteq> 0"
  by (simp add: NSEC_PER_SEC_numeral)

lemma bpf_ktime_get_sec_Inr: "bpf_ktime_get_sec t = Inr (t div NSEC_PER_SEC)"
  by (simp add: bpf_ktime_get_sec_def u64_div_def NSEC_PER_SEC_nonzero)

lemma unat_sec: "unat (t div NSEC_PER_SEC) = unat t div 1000000000"
  by (simp add: unat_div_distrib unat_NSEC_PER_SEC)

lemma sec_mono: "t1 \<le> t2 \<Longrightarrow> t1 div NSEC_PER_SEC \<le> t2 div NSEC_PER_SEC"
  by (simp add: word_le_nat_alt unat_div_distrib div_le_mono)

lemma sorted_map_sec: "sorted ts \<Longrightarrow> sorted (map (\<lambda>t. t div NSEC_PER_SEC) ts)"
proof (induction ts)
  case Nil
  show ?case by simp
next
  case (Cons t ts)
  then show ?case by (simp add: sec_mono)
qed

text \<open>
  The block yields its initialiser's value and restores the state it was entered in.
\<close>

lemma enter_leave_block: "leave_block m (enter_block v m) = m"
  by (simp add: enter_block_def leave_block_def)

lemma stmt_expr_eq: "stmt_expr v m = (v, m)"
  by (simp add: stmt_expr_def enter_leave_block) (simp add: enter_block_def)

text \<open>
  On the machine, \<open>bpf_ktime_get_sec\<close> has the value of the definition above at the
  clock's reading, and so two runs of it in states with different clocks can differ.
\<close>

lemma bpf_ktime_get_sec_stmt_value:
  "fst (bpf_ktime_get_sec_stmt m) = bpf_ktime_get_sec (mono_clock m)"
  by (simp add: bpf_ktime_get_sec_stmt_def bpf_ktime_get_sec_def u64_div_def stmt_expr_eq)

lemma bpf_ktime_get_sec_stmt_reads_clock:
  "fst (bpf_ktime_get_sec_stmt (m\<lparr>mono_clock := 0\<rparr>))
     \<noteq> fst (bpf_ktime_get_sec_stmt (m\<lparr>mono_clock := 1000000000\<rparr>))"
  by (simp add: bpf_ktime_get_sec_stmt_value bpf_ktime_get_sec_Inr NSEC_PER_SEC_numeral)

section \<open>Seconds of the monotonic clock\<close>

text \<open>
  C1. For every 64-bit nanosecond reading \<open>t\<close> of the clock, \<open>bpf_ktime_get_sec\<close>
  returns (without fault) the seconds count whose unsigned value is the floor of
  \<open>t / 1000000000\<close>; a reading of 2500000000 gives 2 and one of 999999999 gives 0.
\<close>

theorem bpf_ktime_get_sec_floor_div:
  "(\<exists>s. bpf_ktime_get_sec t = Inr s \<and> s = t div 1000000000
        \<and> unat s = unat t div 1000000000)
   \<and> bpf_ktime_get_sec 2500000000 = Inr 2
   \<and> bpf_ktime_get_sec 999999999 = Inr 0"
proof -
  have "bpf_ktime_get_sec t = Inr (t div 1000000000)"
    using bpf_ktime_get_sec_Inr [of t] by (simp add: NSEC_PER_SEC_numeral)
  moreover have "unat (t div 1000000000) = unat t div 1000000000"
    using unat_sec [of t] by (simp add: NSEC_PER_SEC_numeral)
  moreover have "bpf_ktime_get_sec 2500000000 = Inr 2"
    by (simp add: bpf_ktime_get_sec_Inr NSEC_PER_SEC_numeral)
  moreover have "bpf_ktime_get_sec 999999999 = Inr 0"
    by (simp add: bpf_ktime_get_sec_Inr NSEC_PER_SEC_numeral)
  ultimately show ?thesis by simp
qed

text \<open>
  C4. The seconds conversion is monotone: of two readings \<open>t1 \<le> t2\<close> the second
  gives at least as many seconds as the first (\<open>t1 / 1000000000 \<le> t2 / 1000000000\<close>),
  and a non-decreasing list of readings gives a non-decreasing list of seconds counts.
\<close>

theorem bpf_ktime_get_sec_mono:
  "(t1 \<le> t2 \<longrightarrow>
      (\<exists>s1 s2. bpf_ktime_get_sec t1 = Inr s1 \<and> bpf_ktime_get_sec t2 = Inr s2
         \<and> s1 \<le> s2)
      \<and> unat t1 div 1000000000 \<le> unat t2 div 1000000000)
   \<and> (sorted ts \<longrightarrow>
      (\<exists>ss. map bpf_ktime_get_sec ts = map Inr ss \<and> sorted ss))"
proof (intro conjI impI)
  assume le: "t1 \<le> t2"
  then show "unat t1 div 1000000000 \<le> unat t2 div 1000000000"
    by (simp add: word_le_nat_alt div_le_mono)
  from le have "t1 div NSEC_PER_SEC \<le> t2 div NSEC_PER_SEC"
    by (rule sec_mono)
  then show "\<exists>s1 s2. bpf_ktime_get_sec t1 = Inr s1 \<and> bpf_ktime_get_sec t2 = Inr s2
      \<and> s1 \<le> s2"
    by (simp add: bpf_ktime_get_sec_Inr)
next
  assume "sorted ts"
  then have "sorted (map (\<lambda>t. t div NSEC_PER_SEC) ts)"
    by (rule sorted_map_sec)
  moreover have "map bpf_ktime_get_sec ts = map Inr (map (\<lambda>t. t div NSEC_PER_SEC) ts)"
    by (simp add: bpf_ktime_get_sec_Inr)
  ultimately show "\<exists>ss. map bpf_ktime_get_sec ts = map Inr ss \<and> sorted ss"
    by blast
qed

theorem bpf_ktime_get_sec_mono_witness:
  "(999999999 :: u64) \<le> 2500000000
   \<and> (\<exists>s1 s2. bpf_ktime_get_sec 999999999 = Inr s1
         \<and> bpf_ktime_get_sec 2500000000 = Inr s2 \<and> s1 \<le> s2)
   \<and> sorted [0, 999999999, 1000000000, 2500000000 :: u64]
   \<and> (\<exists>ss. map bpf_ktime_get_sec [0, 999999999, 1000000000, 2500000000] = map Inr ss
         \<and> sorted ss)"
proof -
  have a: "(999999999 :: u64) \<le> 2500000000"
    by simp
  have b: "sorted [0, 999999999, 1000000000, 2500000000 :: u64]"
    by simp
  note m = bpf_ktime_get_sec_mono
    [of 999999999 2500000000 "[0, 999999999, 1000000000, 2500000000]"]
  from m a have "\<exists>s1 s2. bpf_ktime_get_sec 999999999 = Inr s1
         \<and> bpf_ktime_get_sec 2500000000 = Inr s2 \<and> s1 \<le> s2"
    by blast
  moreover from m b
  have "\<exists>ss. map bpf_ktime_get_sec [0, 999999999, 1000000000, 2500000000] = map Inr ss
         \<and> sorted ss"
    by blast
  ultimately show ?thesis using a b by blast
qed

text \<open>
  C6. The divisor of \<open>bpf_ktime_get_sec\<close> is never zero: \<open>NSEC_PER_SEC\<close> is a nonzero
  constant, so for every reading the result is a value and never the division-by-zero
  fault. (The other operation, \<open>bpf_sec_to_jiffies\<close>, has no fault in its result type.)
\<close>

theorem bpf_ktime_get_sec_no_fault:
  "NSEC_PER_SEC \<noteq> 0
   \<and> u64_div t NSEC_PER_SEC \<noteq> Inl DivideByZero
   \<and> bpf_ktime_get_sec t \<noteq> Inl DivideByZero
   \<and> (\<exists>s. bpf_ktime_get_sec t = Inr s)"
  by (simp add: bpf_ktime_get_sec_def u64_div_def NSEC_PER_SEC_nonzero)

text \<open>
  C7. \<open>NSEC_PER_SEC\<close> is exactly 1000000000: the product \<open>1000 * 1000 * 1000\<close> of the
  source does not wrap, its unsigned value is the product of the factors' values.
\<close>

theorem NSEC_PER_SEC_exact:
  "NSEC_PER_SEC = 1000000000
   \<and> unat NSEC_PER_SEC = 1000000000
   \<and> unat NSEC_PER_SEC = unat (1000 :: u64) * unat (1000 :: u64) * unat (1000 :: u64)
   \<and> uint NSEC_PER_SEC = 10 ^ 9"
  by (simp add: NSEC_PER_SEC_def)

text \<open>
  C10. The seconds conversion is a floor: for every reading \<open>t\<close> the returned seconds
  count \<open>s\<close> satisfies, in exact integer arithmetic, \<open>s * 1000000000 \<le> t\<close> and
  \<open>t - s * 1000000000 < 1000000000\<close>; the discarded remainder is less than one second.
\<close>

theorem bpf_ktime_get_sec_remainder:
  "\<exists>s. bpf_ktime_get_sec t = Inr s
     \<and> uint s * 1000000000 \<le> uint t
     \<and> uint t - uint s * 1000000000 < 1000000000"
proof -
  have s: "uint (t div NSEC_PER_SEC) = uint t div 1000000000"
    by (simp add: uint_div_distrib NSEC_PER_SEC_numeral)
  have "uint t div 1000000000 * 1000000000 \<le> uint t"
    by simp
  moreover have "uint t - uint t div 1000000000 * 1000000000 = uint t mod 1000000000"
    by (simp add: minus_div_mult_eq_mod)
  moreover have "uint t mod 1000000000 < 1000000000"
    by simp
  ultimately show ?thesis
    using s by (simp add: bpf_ktime_get_sec_Inr)
qed

section \<open>Seconds to jiffies\<close>

text \<open>
  C2. For every 64-bit seconds count \<open>s\<close> and every tick frequency \<open>hz > 0\<close> whose
  exact product \<open>s * hz\<close> is below \<open>2 ^ 64\<close>, \<open>bpf_sec_to_jiffies\<close> returns exactly
  that product; 5 seconds at 250 ticks per second are 1250 ticks.
\<close>

theorem bpf_sec_to_jiffies_exact:
  assumes "0 < unat hz" and "unat s * unat hz < 2 ^ 64"
  shows "unat (bpf_sec_to_jiffies hz s) = unat s * unat hz"
proof -
  have "unat s * unat hz < 2 ^ LENGTH(64)"
    using assms(2) by simp
  then have "unat (s * hz) = unat s * unat hz"
    by (simp only: unat_mult_lem)
  then show ?thesis
    by (simp add: bpf_sec_to_jiffies_def)
qed

theorem bpf_sec_to_jiffies_exact_witness:
  "0 < unat (250 :: u64) \<and> unat (5 :: u64) * unat (250 :: u64) < 2 ^ 64
   \<and> unat (bpf_sec_to_jiffies 250 5) = 1250
   \<and> bpf_sec_to_jiffies 250 5 = 1250"
proof -
  have pos: "0 < unat (250 :: u64)"
    by simp
  have fits: "unat (5 :: u64) * unat (250 :: u64) < 2 ^ 64"
    by simp
  have "unat (bpf_sec_to_jiffies 250 5) = unat (5 :: u64) * unat (250 :: u64)"
    using pos fits by (rule bpf_sec_to_jiffies_exact)
  then have val: "unat (bpf_sec_to_jiffies 250 5) = 1250"
    by simp
  then have "bpf_sec_to_jiffies 250 5 = 1250"
    by (simp add: word_unat_eq_iff)
  with pos fits val show ?thesis
    by blast
qed

text \<open>
  C3. \<open>bpf_sec_to_jiffies\<close> wraps on overflow: for every \<open>s\<close> and \<open>hz\<close> the result
  is the exact product reduced modulo \<open>2 ^ 64\<close>; it is always a plain 64-bit value (the
  function has no fault in its result and does not saturate), and \<open>2 ^ 63\<close> seconds at 2
  ticks per second give 0.
\<close>

theorem bpf_sec_to_jiffies_wraps:
  "unat (bpf_sec_to_jiffies hz s) = (unat s * unat hz) mod 2 ^ 64
   \<and> bpf_sec_to_jiffies 2 (2 ^ 63) = 0
   \<and> bpf_sec_to_jiffies 2 (2 ^ 63) \<noteq> - 1"
proof -
  have "unat (s * hz) = (unat s * unat hz) mod 2 ^ 64"
    by (simp add: unat_word_ariths)
  moreover have "(2 ^ 63 :: u64) * 2 = 0"
    by simp
  ultimately show ?thesis
    by (simp add: bpf_sec_to_jiffies_def)
qed

text \<open>
  C5. Zero seconds are zero ticks at every tick frequency, and at one tick per second
  every seconds count is its own tick count.
\<close>

theorem bpf_sec_to_jiffies_boundary:
  "bpf_sec_to_jiffies hz 0 = 0 \<and> bpf_sec_to_jiffies 1 s = s"
  by (simp add: bpf_sec_to_jiffies_def)

text \<open>
  C8. \<open>bpf_sec_to_jiffies\<close> is deterministic and pure. Run on the machine state, the
  macro returns the same tick count for the same seconds count and tick frequency
  whatever the state is (clock and variables in scope), it leaves the state as it found
  it, so a second invocation after the first returns the same tick count again, and that
  tick count is the product of the two inputs.
\<close>

theorem bpf_sec_to_jiffies_no_hidden_state:
  "fst (bpf_sec_to_jiffies_stmt hz s m1) = fst (bpf_sec_to_jiffies_stmt hz s m2)
   \<and> snd (bpf_sec_to_jiffies_stmt hz s m1) = m1
   \<and> fst (bpf_sec_to_jiffies_stmt hz s (snd (bpf_sec_to_jiffies_stmt hz s m1)))
       = fst (bpf_sec_to_jiffies_stmt hz s m1)
   \<and> fst (bpf_sec_to_jiffies_stmt hz s m1) = bpf_sec_to_jiffies hz s"
proof -
  have run: "bpf_sec_to_jiffies_stmt hz s m = (s * hz, m)" for m
    unfolding bpf_sec_to_jiffies_stmt_def by (rule stmt_expr_eq)
  show ?thesis
    by (simp add: run bpf_sec_to_jiffies_def)
qed

text \<open>
  C9. At a tick frequency of zero \<open>bpf_sec_to_jiffies\<close> still returns a value: every
  seconds count gives 0 ticks.
\<close>

theorem bpf_sec_to_jiffies_zero_hz:
  "bpf_sec_to_jiffies 0 s = 0"
  by (simp add: bpf_sec_to_jiffies_def)

end
